theory Spec2Isabelle
  imports Main "HOL-Library.AList"
begin

section \<open>Values decoded from JSON, as Python holds them\<close>

text \<open>
  \<^verbatim>\<open>response.json()\<close> yields \<^verbatim>\<open>None\<close>, a \<^verbatim>\<open>bool\<close>, an \<^verbatim>\<open>int\<close>, a \<^verbatim>\<open>float\<close>, a \<^verbatim>\<open>str\<close>,
  a \<^verbatim>\<open>list\<close> or a \<^verbatim>\<open>dict\<close> with string keys. A dict keeps insertion order, so it is
  an association list. A float is carried by its \<^verbatim>\<open>repr\<close> text, the only thing the
  client ever does with one. Python's \<^verbatim>\<open>None\<close> is \<open>JNull\<close>: a missing key read with
  \<^verbatim>\<open>.get\<close> and a JSON \<^verbatim>\<open>null\<close> are the same object to the code.

  A \<^verbatim>\<open>str\<close> is a sequence of code points. A character of the model is a code point
  below 256, so the model holds the texts of that range, each character in one
  \<^typ>\<open>char\<close>; texts with other characters are outside it.
\<close>

datatype json_value =
    JNull
  | JBool bool
  | JInt int
  | JFloat string
  | JStr string
  | JList "json_value list"
  | JDict "(string \<times> json_value) list"

text \<open>\<^verbatim>\<open>d.get(k)\<close>, \<^verbatim>\<open>d.get(k, default)\<close>, \<^verbatim>\<open>k in d\<close> and \<^verbatim>\<open>d[k]\<close> on a dict.\<close>

definition dict_get :: "(string \<times> json_value) list \<Rightarrow> string \<Rightarrow> json_value" where
  "dict_get d k = (case map_of d k of None \<Rightarrow> JNull | Some v \<Rightarrow> v)"

definition dict_get_default ::
  "(string \<times> json_value) list \<Rightarrow> string \<Rightarrow> json_value \<Rightarrow> json_value" where
  "dict_get_default d k dflt = (case map_of d k of None \<Rightarrow> dflt | Some v \<Rightarrow> v)"

definition dict_contains :: "(string \<times> json_value) list \<Rightarrow> string \<Rightarrow> bool" where
  "dict_contains d k = (map_of d k \<noteq> None)"

subsection \<open>\<^verbatim>\<open>str\<close> and \<^verbatim>\<open>repr\<close>\<close>

definition digit_char :: "nat \<Rightarrow> char" where
  "digit_char n = ''0123456789abcdef'' ! (n mod 16)"

fun str_nat :: "nat \<Rightarrow> string" where
  "str_nat n = (if n < 10 then [digit_char n] else str_nat (n div 10) @ [digit_char (n mod 10)])"

declare str_nat.simps [simp del]

definition str_int :: "int \<Rightarrow> string" where
  "str_int i = (if i < 0 then CHR ''-'' # str_nat (nat (- i)) else str_nat (nat i))"

text \<open>\<^verbatim>\<open>sep.join(parts)\<close>.\<close>

fun join :: "string \<Rightarrow> string list \<Rightarrow> string" where
  "join sep [] = []"
| "join sep [x] = x"
| "join sep (x # y # ys) = x @ sep @ join sep (y # ys)"

text \<open>
  \<^verbatim>\<open>repr\<close> of a \<^verbatim>\<open>str\<close>: single quotes unless the text has a single quote and no double
  quote; the quote and the backslash are escaped, tab, newline and carriage return
  are written \<^verbatim>\<open>\t\<close>, \<^verbatim>\<open>\n\<close>, \<^verbatim>\<open>\r\<close>, and every other character that is not
  printable is written \<^verbatim>\<open>\xNN\<close>. Below 256 the characters that are not printable are
  the control characters 0 to 31 and 127 to 159, the no-break space 160 and the soft
  hyphen 173.
\<close>

definition printable :: "char \<Rightarrow> bool" where
  "printable c =
     (let n = (of_char c :: nat) in \<not> (n < 32 \<or> (127 \<le> n \<and> n \<le> 160) \<or> n = 173))"

definition repr_quote :: "string \<Rightarrow> char" where
  "repr_quote s = (if CHR 0x27 \<in> set s \<and> CHR 0x22 \<notin> set s then CHR 0x22 else CHR 0x27)"

definition repr_char :: "char \<Rightarrow> char \<Rightarrow> string" where
  "repr_char q c =
     (if c = q \<or> c = CHR 0x5C then [CHR 0x5C, c]
      else if c = CHR 0x09 then [CHR 0x5C, CHR ''t'']
      else if c = CHR 0x0A then [CHR 0x5C, CHR ''n'']
      else if c = CHR 0x0D then [CHR 0x5C, CHR ''r'']
      else if \<not> printable c then
        [CHR 0x5C, CHR ''x'', digit_char (of_char c div 16), digit_char (of_char c mod 16)]
      else [c])"

definition repr_str :: "string \<Rightarrow> string" where
  "repr_str s = (let q = repr_quote s in q # concat (map (repr_char q) s) @ [q])"

fun py_repr :: "json_value \<Rightarrow> string" where
  "py_repr JNull = ''None''"
| "py_repr (JBool b) = (if b then ''True'' else ''False'')"
| "py_repr (JInt i) = str_int i"
| "py_repr (JFloat s) = s"
| "py_repr (JStr s) = repr_str s"
| "py_repr (JList xs) = ''['' @ join '', '' (map py_repr xs) @ '']''"
| "py_repr (JDict kvs) =
     ''{'' @ join '', '' (map (\<lambda>kv. repr_str (fst kv) @ '': '' @ py_repr (snd kv)) kvs) @ ''}''"

text \<open>\<^verbatim>\<open>str(x)\<close>, which is also what an f-string field \<^verbatim>\<open>{x}\<close> inserts.\<close>

definition py_str :: "json_value \<Rightarrow> string" where
  "py_str v = (case v of JStr s \<Rightarrow> s | _ \<Rightarrow> py_repr v)"

section \<open>Responses, errors and results\<close>

text \<open>
  What the client reads of a \<^verbatim>\<open>requests.Response\<close>: the status code, the reason phrase
  and the URL (they make up the text of the \<^verbatim>\<open>HTTPError\<close>), the body text, and the
  outcome of \<^verbatim>\<open>response.json()\<close>.

  \<^verbatim>\<open>response.json()\<close> returns the decoded value or raises. On a text that is not JSON it
  raises \<^verbatim>\<open>JSONDecodeError\<close>; the decoder can also give up with \<^verbatim>\<open>RecursionError\<close> (a
  text nested too deeply) or with a plain \<^verbatim>\<open>ValueError\<close> (an integer literal with too many
  digits), and neither of these is a \<^verbatim>\<open>JSONDecodeError\<close> or a
  \<^verbatim>\<open>requests.exceptions.RequestException\<close>.
\<close>

datatype decoder_exception = JSONDecodeError | RecursionError | ValueError

datatype json_outcome = Decoded json_value | Raises decoder_exception

record response =
  resp_status_code :: int
  resp_reason :: string
  resp_url :: string
  resp_text :: string
  resp_json :: json_outcome

text \<open>
  The \<^verbatim>\<open>response_data\<close> of an \<^verbatim>\<open>APIClientError\<close> is whatever object the raise site
  passes: a decoded body, or the response object itself.
\<close>

datatype payload = ParsedBody json_value | ResponseObject response

record api_client_error =
  message :: json_value
  status_code :: "int option"
  response_data :: "payload option"

text \<open>
  Every exception that can leave \<^verbatim>\<open>handle_api_response\<close>: the client's own error, the
  built-in ones raised by subscripting and attribute access on a decoded value, and an
  exception of the decoder that no handler catches.
\<close>

datatype py_error =
    APIClientError api_client_error
  | IndexError
  | KeyError
  | TypeError
  | AttributeError
  | DecoderException decoder_exception

text \<open>
  \<^verbatim>\<open>Response.raise_for_status()\<close> of the requests library: an \<^verbatim>\<open>HTTPError\<close> with the text
  below for a status from 400 to 599, nothing otherwise.
\<close>

definition raise_for_status :: "response \<Rightarrow> string option" where
  "raise_for_status r =
     (if 400 \<le> resp_status_code r \<and> resp_status_code r < 500 then
        Some (str_int (resp_status_code r) @ '' Client Error: '' @ resp_reason r
              @ '' for url: '' @ resp_url r)
      else if 500 \<le> resp_status_code r \<and> resp_status_code r < 600 then
        Some (str_int (resp_status_code r) @ '' Server Error: '' @ resp_reason r
              @ '' for url: '' @ resp_url r)
      else None)"

section \<open>The response normalizer\<close>

text \<open>
  \<^verbatim>\<open>x[-1]\<close> on a decoded value: the last element of a list, the last character of a
  string (as a string of length one), \<^verbatim>\<open>IndexError\<close> when either is empty,
  \<^verbatim>\<open>KeyError\<close> on a dict (its keys are strings, never \<^verbatim>\<open>-1\<close>), \<^verbatim>\<open>TypeError\<close> on
  \<^verbatim>\<open>None\<close>, a bool or a number.
\<close>

definition subscript_last :: "json_value \<Rightarrow> py_error + json_value" where
  "subscript_last x =
     (case x of
        JList xs \<Rightarrow> (if xs = [] then Inl IndexError else Inr (last xs))
      | JStr s \<Rightarrow> (if s = [] then Inl IndexError else Inr (JStr [last s]))
      | JDict d \<Rightarrow> Inl KeyError
      | _ \<Rightarrow> Inl TypeError)"

text \<open>
  One element of the comprehension on line 101:
  \<^verbatim>\<open>f"{err.get('loc', ['unknown_field'])[-1]}: {err.get('msg', '')}"\<close>.
  Only a dict has \<^verbatim>\<open>.get\<close>.
\<close>

definition format_validation_error :: "json_value \<Rightarrow> py_error + string" where
  "format_validation_error err =
     (case err of
        JDict e \<Rightarrow>
          (case subscript_last (dict_get_default e ''loc'' (JList [JStr ''unknown_field''])) of
             Inl ex \<Rightarrow> Inl ex
           | Inr field \<Rightarrow>
               Inr (py_str field @ '': '' @ py_str (dict_get_default e ''msg'' (JStr []))))
      | _ \<Rightarrow> Inl AttributeError)"

text \<open>The comprehension itself: elements in order, the first exception ends it.\<close>

fun format_validation_errors :: "json_value list \<Rightarrow> py_error + string list" where
  "format_validation_errors [] = Inr []"
| "format_validation_errors (err # errs) =
     (case format_validation_error err of
        Inl ex \<Rightarrow> Inl ex
      | Inr s \<Rightarrow>
          (case format_validation_errors errs of
             Inl ex \<Rightarrow> Inl ex
           | Inr ss \<Rightarrow> Inr (s # ss)))"

text \<open>
  The test on lines 98-99: a non-empty list whose first element is a dict with the keys
  \<^verbatim>\<open>loc\<close> and \<^verbatim>\<open>msg\<close>.
\<close>

definition is_validation_list :: "json_value \<Rightarrow> bool" where
  "is_validation_list m =
     (case m of
        JList (JDict e # _) \<Rightarrow> dict_contains e ''loc'' \<and> dict_contains e ''msg''
      | _ \<Rightarrow> False)"

definition list_items :: "json_value \<Rightarrow> json_value list" where
  "list_items m = (case m of JList xs \<Rightarrow> xs | _ \<Rightarrow> [])"

text \<open>Lines 91-107: the message drawn from a decoded error body.\<close>

definition error_body_message :: "json_value \<Rightarrow> py_error + json_value" where
  "error_body_message err_data =
     (case err_data of
        JDict d \<Rightarrow>
          (case (let msg = dict_get d ''error_message'' in
                 if msg = JNull then
                   (let msg = dict_get d ''detail'' in
                    if is_validation_list msg then
                      (case format_validation_errors (list_items msg) of
                         Inl ex \<Rightarrow> Inl ex
                       | Inr parts \<Rightarrow> Inr (JStr (join ''; '' parts)))
                    else Inr msg)
                 else Inr msg) of
             Inl ex \<Rightarrow> Inl ex
           | Inr msg \<Rightarrow>
               Inr (if msg = JNull then JStr (py_str err_data) else msg))
      | _ \<Rightarrow> Inr (JStr (py_str err_data)))"

text \<open>
  Lines 86-112, the handler of the \<^verbatim>\<open>HTTPError\<close> \<open>http_err\<close> (given by its text). The
  error raised on line 112 takes \<^verbatim>\<open>getattr(http_err, 'response', {})\<close> as its
  \<^verbatim>\<open>response_data\<close>; \<^verbatim>\<open>raise_for_status\<close> builds the \<^verbatim>\<open>HTTPError\<close> with
  \<^verbatim>\<open>response=self\<close>, so the attribute is there and is the response object.

  The \<^verbatim>\<open>try\<close> of lines 89-110 catches \<^verbatim>\<open>json.JSONDecodeError\<close> only: any other exception
  of the decoder leaves the handler, and the function, as it is.
\<close>

definition handle_http_error :: "response \<Rightarrow> string \<Rightarrow> py_error + json_value" where
  "handle_http_error r http_err =
     (case (case resp_json r of
              Raises JSONDecodeError \<Rightarrow>
                Inr (if resp_text r \<noteq> [] then JStr (''HTTP error: '' @ resp_text r)
                     else JStr http_err)
            | Raises ex \<Rightarrow> Inl (DecoderException ex)
            | Decoded err_data \<Rightarrow> error_body_message err_data) of
        Inl ex \<Rightarrow> Inl ex
      | Inr msg \<Rightarrow>
          Inl (APIClientError
                 \<lparr>message = msg,
                  status_code = Some (resp_status_code r),
                  response_data = Some (ResponseObject r)\<rparr>))"

text \<open>\<^verbatim>\<open>data["error_message"]\<close>.\<close>

definition dict_getitem :: "(string \<times> json_value) list \<Rightarrow> string \<Rightarrow> py_error + json_value" where
  "dict_getitem d k = (case map_of d k of None \<Rightarrow> Inl KeyError | Some v \<Rightarrow> Inr v)"

text \<open>
  Lines 35-84, the path of a response that \<^verbatim>\<open>raise_for_status\<close> lets through. The inner
  \<^verbatim>\<open>try\<close> of lines 35-42 catches \<^verbatim>\<open>json.JSONDecodeError\<close> only, and the outer handlers
  are for \<^verbatim>\<open>HTTPError\<close> and \<^verbatim>\<open>RequestException\<close>: any other exception of the decoder
  leaves the function as it is.
\<close>

definition handle_ok :: "response \<Rightarrow> py_error + json_value" where
  "handle_ok r =
     (case resp_json r of
        Raises JSONDecodeError \<Rightarrow>
          Inl (APIClientError
                 \<lparr>message = JStr (''Failed to decode JSON response from successful HTTP call: ''
                                  @ resp_text r),
                  status_code = Some (resp_status_code r),
                  response_data = None\<rparr>)
      | Raises ex \<Rightarrow> Inl (DecoderException ex)
      | Decoded data \<Rightarrow>
          (case data of
             JDict d \<Rightarrow>
               (let api_status = dict_get d ''status'' in
                if api_status = JStr ''error'' then
                  Inl (APIClientError
                         \<lparr>message = dict_get_default d ''error_message''
                                     (JStr ''Unknown API error: 'status' is 'error' but 'error_message' is missing.''),
                          status_code = Some (resp_status_code r),
                          response_data = Some (ParsedBody data)\<rparr>)
                else if api_status = JStr ''success'' then Inr data
                else if api_status = JNull then
                  (if dict_contains d ''error_message'' then
                     (case dict_getitem d ''error_message'' of
                        Inl ex \<Rightarrow> Inl ex
                      | Inr m \<Rightarrow>
                          Inl (APIClientError
                                 \<lparr>message = m,
                                  status_code = Some (resp_status_code r),
                                  response_data = Some (ParsedBody data)\<rparr>))
                   else Inr data)
                else
                  Inl (APIClientError
                         \<lparr>message = JStr (''API response has an unexpected 'status' field value: ''
                                          @ [CHR 0x27] @ py_str api_status @ [CHR 0x27]),
                          status_code = Some (resp_status_code r),
                          response_data = Some (ParsedBody data)\<rparr>))
           | _ \<Rightarrow> Inr data))"

text \<open>
  \<^verbatim>\<open>handle_api_response\<close>: \<open>Inr\<close> is the value returned, \<open>Inl\<close> the exception raised.
\<close>

definition handle_api_response :: "response \<Rightarrow> py_error + json_value" where
  "handle_api_response r =
     (case raise_for_status r of
        None \<Rightarrow> handle_ok r
      | Some http_err \<Rightarrow> handle_http_error r http_err)"

section \<open>Endpoint invokers\<close>

definition BASE_URL :: string where
  "BASE_URL = ''http://127.0.0.1:8084''"

datatype http_method = GET | POST

text \<open>
  What an invoker hands to \<^verbatim>\<open>requests.get\<close> or \<^verbatim>\<open>requests.post\<close>: the URL, and the dict
  given as \<^verbatim>\<open>params=\<close> or as \<^verbatim>\<open>json=\<close> when there is one.
\<close>

record request =
  req_method :: http_method
  req_url :: string
  req_params :: "(string \<times> string) list option"
  req_json :: "(string \<times> string) list option"

text \<open>
  \<^verbatim>\<open>if arg: params[key] = arg\<close> (lines 256-258): an argument that is \<^verbatim>\<open>None\<close> or the
  empty string is falsy. \<^verbatim>\<open>if arg is not None: payload[key] = arg\<close> (lines 180-183)
  lets the empty string through.
\<close>

definition set_if_truthy ::
  "string \<Rightarrow> string option \<Rightarrow> (string \<times> string) list \<Rightarrow> (string \<times> string) list" where
  "set_if_truthy key arg params =
     (case arg of
        None \<Rightarrow> params
      | Some v \<Rightarrow> (if v \<noteq> [] then AList.update key v params else params))"

definition set_if_not_none ::
  "string \<Rightarrow> string option \<Rightarrow> (string \<times> string) list \<Rightarrow> (string \<times> string) list" where
  "set_if_not_none key arg payload =
     (case arg of None \<Rightarrow> payload | Some v \<Rightarrow> AList.update key v payload)"

text \<open>Lines 254-260 of \<^verbatim>\<open>call_jenkinsfile_gen\<close>: the request it sends.\<close>

definition jenkinsfile_gen_params ::
  "string \<Rightarrow> string option \<Rightarrow> string option \<Rightarrow> string option \<Rightarrow> (string \<times> string) list" where
  "jenkinsfile_gen_params folder_path app_name port version =
     set_if_truthy ''version'' version
       (set_if_truthy ''port'' port
          (set_if_truthy ''app_name'' app_name [(''folder_path'', folder_path)]))"

definition jenkinsfile_gen_request ::
  "string \<Rightarrow> string option \<Rightarrow> string option \<Rightarrow> string option \<Rightarrow> request" where
  "jenkinsfile_gen_request folder_path app_name port version =
     \<lparr>req_method = GET,
      req_url = BASE_URL @ ''/jenkinsfile-gen'',
      req_params = Some (jenkinsfile_gen_params folder_path app_name port version),
      req_json = None\<rparr>"

text \<open>Lines 178-185 of \<^verbatim>\<open>call_analyzer\<close>: the request it sends.\<close>

definition analyzer_payload :: "string option \<Rightarrow> string option \<Rightarrow> (string \<times> string) list" where
  "analyzer_payload folder_path environment_path =
     set_if_not_none ''environment_path'' environment_path
       (set_if_not_none ''folder_path'' folder_path [])"

definition analyzer_request :: "string option \<Rightarrow> string option \<Rightarrow> request" where
  "analyzer_request folder_path environment_path =
     \<lparr>req_method = POST,
      req_url = BASE_URL @ ''/analyzer'',
      req_params = None,
      req_json = Some (analyzer_payload folder_path environment_path)\<rparr>"

text \<open>
  The invokers themselves, over a transport \<open>send\<close> that stands for the one network call:
  it yields a response, or raises.
\<close>

definition call_jenkinsfile_gen ::
  "(request \<Rightarrow> py_error + response) \<Rightarrow> string \<Rightarrow> string option \<Rightarrow> string option
     \<Rightarrow> string option \<Rightarrow> py_error + json_value" where
  "call_jenkinsfile_gen send folder_path app_name port version =
     (case send (jenkinsfile_gen_request folder_path app_name port version) of
        Inl ex \<Rightarrow> Inl ex
      | Inr response \<Rightarrow> handle_api_response response)"

definition call_analyzer ::
  "(request \<Rightarrow> py_error + response) \<Rightarrow> string option \<Rightarrow> string option
     \<Rightarrow> py_error + json_value" where
  "call_analyzer send folder_path environment_path =
     (case send (analyzer_request folder_path environment_path) of
        Inl ex \<Rightarrow> Inl ex
      | Inr response \<Rightarrow> handle_api_response response)"

section \<open>The orchestrator agent\<close>

text \<open>The fifteen invokers that \<^verbatim>\<open>functions.py\<close> defines, in the order of the file.\<close>

datatype invoker =
    Call_save_keys
  | Call_get_keys
  | Call_analyzer
  | Call_get_creds
  | Call_dockerfile_gen
  | Call_jenkinsfile_gen
  | Call_infra
  | Call_get_environments
  | Call_github_webhook_setup
  | Call_acube_cicd_plan
  | Call_acube_dynamic_question
  | Call_acube_answer_validator
  | Call_dashboard_file_data
  | Call_edit_file
  | Call_get_instance_ip

definition all_invokers :: "invoker list" where
  "all_invokers =
     [Call_save_keys, Call_get_keys, Call_analyzer, Call_get_creds, Call_dockerfile_gen,
      Call_jenkinsfile_gen, Call_infra, Call_get_environments, Call_github_webhook_setup,
      Call_acube_cicd_plan, Call_acube_dynamic_question, Call_acube_answer_validator,
      Call_dashboard_file_data, Call_edit_file, Call_get_instance_ip]"

text \<open>The path each invoker appends to \<^verbatim>\<open>BASE_URL\<close>.\<close>

fun endpoint_path :: "invoker \<Rightarrow> string" where
  "endpoint_path Call_save_keys = ''/api/save-keys''"
| "endpoint_path Call_get_keys = ''/api/get-keys''"
| "endpoint_path Call_analyzer = ''/analyzer''"
| "endpoint_path Call_get_creds = ''/creds''"
| "endpoint_path Call_dockerfile_gen = ''/dockerfile-gen''"
| "endpoint_path Call_jenkinsfile_gen = ''/jenkinsfile-gen''"
| "endpoint_path Call_infra = ''/infra''"
| "endpoint_path Call_get_environments = ''/get-environments''"
| "endpoint_path Call_github_webhook_setup = ''/github-webhook-setup''"
| "endpoint_path Call_acube_cicd_plan = ''/acube/cicdplan''"
| "endpoint_path Call_acube_dynamic_question = ''/acube/dynamicquestion''"
| "endpoint_path Call_acube_answer_validator = ''/acube/answervalidator''"
| "endpoint_path Call_dashboard_file_data = ''/dashboard-file-data''"
| "endpoint_path Call_edit_file = ''/edit-file''"
| "endpoint_path Call_get_instance_ip = ''/get-instance-ip''"

text \<open>
  What the agent framework reads of a function object when the function is given as a
  tool: \<^verbatim>\<open>__name__\<close>, the parameters of the signature (name, annotation, default
  value if any) and \<^verbatim>\<open>__doc__\<close>. Every parameter of an invoker is annotated
  \<^verbatim>\<open>str\<close> or \<^verbatim>\<open>Optional[str]\<close>, and every default is \<^verbatim>\<open>None\<close>. The docstring is given
  by its lines, without the indentation of the block and without the blank first and
  last lines.
\<close>

datatype annotation = Str | OptionalStr

datatype default_value = NoDefault | DefaultNone

datatype parameter =
  Parameter (param_name: string) (param_annotation: annotation) (param_default: default_value)

fun fn_name :: "invoker \<Rightarrow> string" where
  "fn_name Call_save_keys = ''call_save_keys''"
| "fn_name Call_get_keys = ''call_get_keys''"
| "fn_name Call_analyzer = ''call_analyzer''"
| "fn_name Call_get_creds = ''call_get_creds''"
| "fn_name Call_dockerfile_gen = ''call_dockerfile_gen''"
| "fn_name Call_jenkinsfile_gen = ''call_jenkinsfile_gen''"
| "fn_name Call_infra = ''call_infra''"
| "fn_name Call_get_environments = ''call_get_environments''"
| "fn_name Call_github_webhook_setup = ''call_github_webhook_setup''"
| "fn_name Call_acube_cicd_plan = ''call_acube_cicd_plan''"
| "fn_name Call_acube_dynamic_question = ''call_acube_dynamic_question''"
| "fn_name Call_acube_answer_validator = ''call_acube_answer_validator''"
| "fn_name Call_dashboard_file_data = ''call_dashboard_file_data''"
| "fn_name Call_edit_file = ''call_edit_file''"
| "fn_name Call_get_instance_ip = ''call_get_instance_ip''"

fun fn_signature :: "invoker \<Rightarrow> parameter list" where
  "fn_signature Call_save_keys =
     [Parameter ''public_key'' Str NoDefault,
      Parameter ''private_key'' Str NoDefault]"
| "fn_signature Call_get_keys =
     []"
| "fn_signature Call_analyzer =
     [Parameter ''folder_path'' Str NoDefault,
      Parameter ''environment_path'' Str NoDefault]"
| "fn_signature Call_get_creds =
     []"
| "fn_signature Call_dockerfile_gen =
     [Parameter ''app_type'' Str NoDefault,
      Parameter ''python_version'' Str NoDefault,
      Parameter ''work_dir'' Str NoDefault,
      Parameter ''entrypoint'' Str NoDefault,
      Parameter ''folder_path'' Str NoDefault]"
| "fn_signature Call_jenkinsfile_gen =
     [Parameter ''folder_path'' Str NoDefault,
      Parameter ''app_name'' OptionalStr DefaultNone,
      Parameter ''port'' OptionalStr DefaultNone,
      Parameter ''version'' OptionalStr DefaultNone]"
| "fn_signature Call_infra =
     [Parameter ''work_dir'' Str NoDefault,
      Parameter ''instance_size'' Str NoDefault]"
| "fn_signature Call_get_environments =
     [Parameter ''folder_path'' Str NoDefault]"
| "fn_signature Call_github_webhook_setup =
     [Parameter ''folder_path'' Str NoDefault]"
| "fn_signature Call_acube_cicd_plan =
     [Parameter ''user_request'' Str NoDefault,
      Parameter ''service_type'' Str NoDefault]"
| "fn_signature Call_acube_dynamic_question =
     [Parameter ''tool_name'' Str NoDefault]"
| "fn_signature Call_acube_answer_validator =
     [Parameter ''tool_name'' Str NoDefault,
      Parameter ''answer'' Str NoDefault]"
| "fn_signature Call_dashboard_file_data =
     []"
| "fn_signature Call_edit_file =
     [Parameter ''filename'' Str NoDefault,
      Parameter ''original_code'' Str NoDefault,
      Parameter ''prompt'' Str NoDefault]"
| "fn_signature Call_get_instance_ip =
     [Parameter ''work_dir'' Str NoDefault]"

fun fn_doc :: "invoker \<Rightarrow> string list" where
  "fn_doc Call_save_keys =
     [''Saves public and private keys to the server. The private key must be base64 encoded.'',
      '''',
      ''Args:'',
      ''    public_key (str): The public SSH key.'',
      ''    private_key (str): The base64 encoded private SSH key.'',
      '''',
      ''Returns:'',
      ''    dict: API response.'',
      ''          Example success: `{\"success\": True, \"message\": \"Keys saved securely to file.\"}`'',
      ''          Example error: `{\"success\": False, \"error\": \"Error details\"}`'',
      '''',
      ''Raises:'',
      ''    APIClientError: If the API call fails or returns an error.'']"
| "fn_doc Call_get_keys =
     [''Retrieves the saved public and private keys from the server.'',
      ''The returned private key will be base64 encoded.'',
      '''',
      ''Returns:'',
      ''    dict: API response.'',
      ''          Example success: `{\"success\": True, \"keys\": {\"public_key\": \"...\", \"private_key\": \"base64encodedkey\"}}`'',
      ''          Example error: `{\"success\": False, \"error\": \"Error details\"}`'',
      '''',
      ''Raises:'',
      ''    APIClientError: If the API call fails or returns an error.'']"
| "fn_doc Call_analyzer =
     [''Analyzes Python files in a specified directory to identify dependencies,'',
      ''generate a requirements file, and extract contextual information like'',
      ''app type, working directory, and entry point.'',
      '''',
      ''Args:'',
      ''    folder_path (str): The path to the folder to analyze.'',
      ''                                 Server-side logic might require this.'',
      ''    environment_path (str): Path to the Python environment'',
      ''                                      to help resolve dependencies.'',
      '''',
      ''Returns:'',
      ''    dict: API response.'',
      ''          Example success: `{\"success\": True, \"app_type\": \"streamlit\", \"environment_path\": \"/path/env\", \"work_dir\": \"/app\", \"entrypoint\": \"run.py\"}`'',
      ''          Example error: `{\"success\": False, \"error\": \"Analyzer error: folder_path is required.\"}`'',
      '''',
      ''Raises:'',
      ''    APIClientError: If the API call fails or returns an error.'']"
| "fn_doc Call_get_creds =
     [''Fetches AWS credentials and configurations like key pairs, regions, VPCs,'',
      ''subnets, and security groups that are configured for the server environment.'',
      '''',
      ''Returns:'',
      ''    dict: API response.'',
      ''          Example success: `{\"success\": True, \"aws_key_pairs\": [...], \"aws_region\": \"us-west-2\", ...}`'',
      ''          Example error: `{\"success\": False, \"error\": \"Error getting AWS creds: details\"}`'',
      '''',
      ''Raises:'',
      ''    APIClientError: If the API call fails or returns an error.'']"
| "fn_doc Call_dockerfile_gen =
     [''Generates a Dockerfile based on the specified application context data.'',
      '''',
      ''Args:'',
      ''    app_type (str): Type of the application (e.g., 'streamlit', 'fastapi'). Required.'',
      ''    python_version (str): Python version to use (e.g., '3.9'). Required.'',
      ''    work_dir (str): The working directory path inside the Docker container (e.g., '/app'). Required.'',
      ''    entrypoint (str): Entrypoint script for the application (e.g., 'app.py'). Required.'',
      ''    folder_path (str): The server-side folder path where the Dockerfile will be generated. Required.'',
      '''',
      ''Returns:'',
      ''    dict: API response.'',
      ''          Example success: `{\"success\": True, \"message\": \"Dockerfile generated in /path/to/folder\"}`'',
      ''          Example error: `{\"success\": False, \"error\": \"Dockerfile generation error: details\"}`'',
      '''',
      ''Raises:'',
      ''    APIClientError: If the API call fails or returns an error.'']"
| "fn_doc Call_jenkinsfile_gen =
     [''Generates a Jenkinsfile in the specified server-side folder path.'',
      ''Optionally, app_name, port, and version can be provided if the server supports them as query parameters.'',
      '''',
      ''Args:'',
      ''    folder_path (str): The server-side folder path where the Jenkinsfile will be generated. Required.'',
      ''    app_name (Optional[str]): Name of the application (e.g., \"Streamlit-App\").'',
      ''    port (Optional[str]): Port the application runs on (e.g., '8501').'',
      ''    version (Optional[str]): Version tag for the application (e.g., \"v1\").'',
      '''',
      ''Returns:'',
      ''    dict: API response.'',
      ''          Example success: `{\"success\": True, \"message\": \"Jenkinsfile generated in /path/to/folder\"}`'',
      ''          Example error: `{\"success\": False, \"error\": \"Jenkinsfile generation error: details\"}`'',
      '''',
      ''Raises:'',
      ''    APIClientError: If the API call fails or returns an error.'']"
| "fn_doc Call_infra =
     [''Generates Terraform infrastructure configurations and can trigger an initial setup'',
      ''for the user's requested infrastructure based on the specified working directory and instance size.'',
      '''',
      ''Args:'',
      ''    work_dir (str): The server-side working directory path for Terraform operations. Required.'',
      ''    instance_size (str): The EC2 instance size (e.g., 't2.micro', 't3.medium'). Required.'',
      '''',
      ''Returns:'',
      ''    dict: API response.'',
      ''          Example success: `{\"success\": True, \"message\": \"Infrastructure setup process initiated successfully.\"}`'',
      ''          Example error: `{\"success\": False, \"error\": \"Infra setup error: details\"}`'',
      '''',
      ''Raises:'',
      ''    APIClientError: If the API call fails or returns an error.'']"
| "fn_doc Call_get_environments =
     [''Retrieves available Python versions found in a specified server-side directory.'',
      ''This can include system Python, conda environments, or brew environments scanned by the server.'',
      '''',
      ''Args:'',
      ''    folder_path (str): The server-side folder path to scan for Python environments. Required.'',
      '''',
      ''Returns:'',
      ''    dict: API response.'',
      ''          Example success: `{\"success\": True, \"python_versions\": [\"3.8\", \"3.9.7\"]}`'',
      ''          Example error: `{\"success\": False, \"error\": \"Error getting environments: details\"}`'',
      '''',
      ''Raises:'',
      ''    APIClientError: If the API call fails or returns an error.'']"
| "fn_doc Call_github_webhook_setup =
     [''Sets up a GitHub webhook for a repository associated with the specified server-side folder path.'',
      ''This typically requires prior configuration of GitHub credentials on the server.'',
      '''',
      ''Args:'',
      ''    folder_path (str): The server-side path to the folder (Git repository)'',
      ''                       for which the GitHub webhook needs to be set up. Required.'',
      '''',
      ''Returns:'',
      ''    dict: API response.'',
      ''          Example success: `{\"success\": True, \"message\": \"Webhook setup process completed.\", \"details\": \"Webhook created with ID 12345\"}`'',
      ''          Example error: `{\"success\": False, \"error\": \"GitHub webhook setup error: details\"}`'',
      '''',
      ''Raises:'',
      ''    APIClientError: If the API call fails or returns an error.'']"
| "fn_doc Call_acube_cicd_plan =
     [''Generates a CI/CD plan using the Acube orchestrator based on a user request and service type.'',
      ''May involve IAM checks and LLM interactions on the server side.'',
      '''',
      ''Args:'',
      ''    user_request (str): The user's natural language request or objective for the CI/CD pipeline.'',
      ''    service_type (str): The type of service or application (e.g., \"streamlit\", \"aws-lambda\").'',
      '''',
      ''Returns:'',
      ''    dict: API response.'',
      ''          Example success: `{\"success\": True, \"Reasoning_Steps\": [...], \"Tool_Execution_Order\": [...]}`'',
      ''          Example IAM fail: `{\"success\": False, \"error_type\": \"Credential Error\", \"IAM_Check_Details\": {...}}`'',
      ''          Example general error: `{\"success\": False, \"error\": \"Error generating CICD plan: details\"}`'',
      '''',
      ''Raises:'',
      ''    APIClientError: If the API call fails or returns an error.'']"
| "fn_doc Call_acube_dynamic_question =
     [''Retrieves a dynamic question for a specific tool within the Acube interactive flow.'',
      ''The question generated depends on the tool's state and previously provided answers.'',
      '''',
      ''Args:'',
      ''    tool_name (str): The name of the tool for which to get the dynamic question (e.g., \"analyzer\", \"dockerfile-gen\").'',
      '''',
      ''Returns:'',
      ''    dict: API response.'',
      ''          Example success: `{\"success\": True, \"analyzer\": \"Which folder path do you want to analyze?\"}` or `{\"success\": True, \"dockerfile-gen\": \"Pass\"}` (if no question needed)'',
      ''          Example error: `{\"success\": False, \"error\": \"Tool 'X' configuration not found.\"}`'',
      '''',
      ''Raises:'',
      ''    APIClientError: If the API call fails or returns an error.'']"
| "fn_doc Call_acube_answer_validator =
     [''Validates a user's answer provided for a specific tool's dynamic question in the Acube flow.'',
      ''The server uses an LLM to parse and validate the answer against the tool's requirements.'',
      '''',
      ''Args:'',
      ''    tool_name (str): The name of the tool for which the answer is being validated.'',
      ''    answer (str): The user's natural language answer to the tool's question.'',
      '''',
      ''Returns:'',
      ''    dict: API response.'',
      ''          Example success: `{\"success\": True, \"variables\": {\"folder_path\": \"/tmp\", \"app_type\": \"streamlit\"}}`'',
      ''          Example error: `{\"success\": False, \"error\": \"Validation error: Could not extract X from your answer.\"}`'',
      '''',
      ''Raises:'',
      ''    APIClientError: If the API call fails or returns an error.'']"
| "fn_doc Call_dashboard_file_data =
     [''Retrieves the content of pre-defined generated files (like Dockerfile, Jenkinsfile, etc.)'',
      ''from a server-configured location, intended for display on a dashboard.'',
      '''',
      ''Returns:'',
      ''    dict: API response.'',
      ''          Example success: `{\"success\": True, \"files_data\": [{\"filename\": \"Dockerfile\", \"content\": \"...\"}, ...]}`'',
      ''          Example empty: `{\"success\": True, \"message\": \"No relevant files found to display.\", \"files_data\": []}`'',
      ''          Example error: `{\"success\": False, \"error\": \"'folder_path' not specified in server config.\"}`'',
      '''',
      ''Raises:'',
      ''    APIClientError: If the API call fails or returns an error.'']"
| "fn_doc Call_edit_file =
     [''Requests the server to edit a specified file's content based on a natural language prompt,'',
      ''likely using an LLM. The server then attempts to write the updated code back to the file.'',
      '''',
      ''Args:'',
      ''    filename (str): The name of the file (relative to a server-defined base path) to be edited.'',
      ''    original_code (str): The current/original content of the file.'',
      ''    prompt (str): The natural language prompt describing the desired changes.'',
      '''',
      ''Returns:'',
      ''    dict: API response.'',
      ''          Example success: `{\"success\": True, \"message\": \"File 'X' updated successfully.\", \"status_detail\": \"Write successful\"}`'',
      ''          Example error: `{\"success\": False, \"error\": \"Failed to get updated code from LLM.\"}`'',
      '''',
      ''Raises:'',
      ''    APIClientError: If the API call fails or returns an error.'']"
| "fn_doc Call_get_instance_ip =
     [''Retrieves the public IP address of an EC2 instance, typically one that was'',
      ''provisioned or managed via operations related to the given server-side working directory.'',
      '''',
      ''Args:'',
      ''    work_dir (str): The server-side working directory associated with the instance'',
      ''                    (e.g., where Terraform state might be located). Required.'',
      '''',
      ''Returns:'',
      ''    dict: API response.'',
      ''          Example success: `{\"success\": True, \"public_ip\": \"12.34.56.78\"}`'',
      ''          Example error: `{\"success\": False, \"error\": \"Failed to retrieve instance IP. It might not be available yet.\"}`'',
      '''',
      ''Raises:'',
      ''    APIClientError: If the API call fails or returns an error.'']"

text \<open>
  The agent framework is not part of the repository. It wraps every function of the
  \<^verbatim>\<open>tools=\<close> list as a tool whose name is the name of the function, whose argument schema
  is derived from the signature and whose description is the documentation of the
  function.
\<close>

record tool =
  tool_name :: string
  tool_parameters :: "parameter list"
  tool_description :: "string list"

definition function_tool :: "invoker \<Rightarrow> tool" where
  "function_tool f =
     \<lparr>tool_name = fn_name f,
      tool_parameters = fn_signature f,
      tool_description = fn_doc f\<rparr>"

text \<open>
  \<^verbatim>\<open>root_agent\<close> of \<^verbatim>\<open>agent.py\<close>: the model, the name and the \<^verbatim>\<open>tools=\<close> list. The
  instruction text and the sampling temperature play no part below.
\<close>

record agent =
  agent_model :: string
  agent_name :: string
  tools :: "invoker list"

definition root_agent :: agent where
  "root_agent =
     \<lparr>agent_model = ''gemini-2.0-flash'',
      agent_name = ''auto_anchor_agent'',
      tools =
        [Call_analyzer, Call_dockerfile_gen, Call_jenkinsfile_gen, Call_get_creds,
         Call_infra, Call_get_environments, Call_github_webhook_setup]\<rparr>"

section \<open>The specification's validation records\<close>

text \<open>
  The specification speaks of a \<^verbatim>\<open>detail\<close> that is a sequence of validation records, each
  with \<^verbatim>\<open>loc\<close> and \<^verbatim>\<open>msg\<close>, rendered as \<^verbatim>\<open>"<last element of loc>: <msg>"\<close>. These two
  definitions follow those words, to be compared with what the code computes: a record
  is a mapping whose \<^verbatim>\<open>loc\<close> is a sequence that has a last element and which has a
  \<^verbatim>\<open>msg\<close>.
\<close>

definition spec_validation_record :: "json_value \<Rightarrow> bool" where
  "spec_validation_record rec =
     (case rec of
        JDict e \<Rightarrow>
          (case map_of e ''loc'' of
             Some (JList loc) \<Rightarrow> loc \<noteq> [] \<and> dict_contains e ''msg''
           | _ \<Rightarrow> False)
      | _ \<Rightarrow> False)"

definition spec_record_text :: "json_value \<Rightarrow> string" where
  "spec_record_text rec =
     (case rec of
        JDict e \<Rightarrow>
          py_str (last (list_items (dict_get e ''loc''))) @ '': '' @ py_str (dict_get e ''msg'')
      | _ \<Rightarrow> [])"

section \<open>The rendering functions on examples\<close>

text \<open>
  \<^verbatim>\<open>"; ".join(["a: x", "3: None"])\<close>, \<^verbatim>\<open>str\<close> of a string, of \<^verbatim>\<open>None\<close>, of a negative number
  and of a mapping with a list in it, \<^verbatim>\<open>repr('a\xa0b')\<close> and \<^verbatim>\<open>repr("it's")\<close>, and the
  subscript \<^verbatim>\<open>[-1]\<close> of a list and of a string.
\<close>

lemma join_example:
  "join ''; '' [''a: x'', ''3: None''] = ''a: x; 3: None''"
  by simp

lemma py_str_examples:
  "py_str (JStr ''field required'') = ''field required''"
  "py_str JNull = ''None''"
  "py_str (JInt (- 120)) = ''-120''"
  "py_str (JDict [(''detail'', JList [JInt 7, JStr ''ab'', JBool True])])
     = ''{'detail': [7, 'ab', True]}''"
  by (simp_all add: py_str_def repr_str_def repr_quote_def repr_char_def printable_def
      str_int_def str_nat.simps digit_char_def Let_def)

lemma py_repr_examples:
  "py_repr (JStr [CHR ''a'', CHR 0xA0, CHR ''b''])
     = [CHR 0x27, CHR ''a'', CHR 0x5C, CHR ''x'', CHR ''a'', CHR ''0'', CHR ''b'', CHR 0x27]"
  "py_repr (JStr ''it's'') = [CHR 0x22] @ ''it's'' @ [CHR 0x22]"
  by (simp_all add: repr_str_def repr_quote_def repr_char_def printable_def digit_char_def
      Let_def)

lemma subscript_last_examples:
  "subscript_last (JList [JStr ''body'', JInt 3]) = Inr (JInt 3)"
  "subscript_last (JStr ''body'') = Inr (JStr ''y'')"
  "subscript_last (JList []) = Inl IndexError"
  "subscript_last JNull = Inl TypeError"
  by (simp_all add: subscript_last_def)

section \<open>Properties of the normalizer\<close>

lemma raise_for_status_ok:
  "200 \<le> resp_status_code r \<Longrightarrow> resp_status_code r < 300 \<Longrightarrow> raise_for_status r = None"
  by (simp add: raise_for_status_def)

lemma raise_for_status_error:
  "400 \<le> resp_status_code r \<Longrightarrow> resp_status_code r < 600 \<Longrightarrow> \<exists>e. raise_for_status r = Some e"
  by (simp add: raise_for_status_def)

text \<open>
  C1. A 2xx response whose body decodes to a mapping with \<^verbatim>\<open>status\<close> equal to
  \<^verbatim>\<open>"success"\<close> is answered by returning that mapping itself, nothing added, removed or
  changed.
\<close>

theorem success_status_returns_body:
  assumes "200 \<le> resp_status_code r" and "resp_status_code r < 300"
    and "resp_json r = Decoded (JDict d)"
    and "map_of d ''status'' = Some (JStr ''success'')"
  shows "handle_api_response r = Inr (JDict d)"
  using assms
  by (simp add: handle_api_response_def raise_for_status_ok handle_ok_def dict_get_def)

theorem success_status_returns_body_witness:
  "handle_api_response
     \<lparr>resp_status_code = 200, resp_reason = ''OK'',
      resp_url = ''http://127.0.0.1:8084/creds'',
      resp_text = ''{\"status\": \"success\", \"report\": 7}'',
      resp_json = Decoded (JDict [(''status'', JStr ''success''), (''report'', JInt 7)])\<rparr>
   = Inr (JDict [(''status'', JStr ''success''), (''report'', JInt 7)])"
  using success_status_returns_body
    [of "\<lparr>resp_status_code = 200, resp_reason = ''OK'',
      resp_url = ''http://127.0.0.1:8084/creds'',
      resp_text = ''{\"status\": \"success\", \"report\": 7}'',
      resp_json = Decoded (JDict [(''status'', JStr ''success''), (''report'', JInt 7)])\<rparr>"
        "[(''status'', JStr ''success''), (''report'', JInt 7)]"]
  by simp

text \<open>
  C2. A 2xx response whose body decodes to a mapping with \<^verbatim>\<open>status\<close> equal to \<^verbatim>\<open>"error"\<close>
  raises the client error whose message is the body's \<^verbatim>\<open>error_message\<close> when the key is
  there and, when it is not, the text \<^verbatim>\<open>Unknown API error: 'status' is 'error' but
  'error_message' is missing.\<close>; the error has the HTTP status as status code and the
  decoded body as payload. The witness has a body of each kind.
\<close>

theorem error_status_raises:
  assumes "200 \<le> resp_status_code r" and "resp_status_code r < 300"
    and "resp_json r = Decoded (JDict d)"
    and "map_of d ''status'' = Some (JStr ''error'')"
  shows "handle_api_response r =
     Inl (APIClientError
            \<lparr>message =
               (case map_of d ''error_message'' of
                  Some m \<Rightarrow> m
                | None \<Rightarrow>
                    JStr ''Unknown API error: 'status' is 'error' but 'error_message' is missing.''),
             status_code = Some (resp_status_code r),
             response_data = Some (ParsedBody (JDict d))\<rparr>)"
  using assms
  by (simp add: handle_api_response_def raise_for_status_ok handle_ok_def dict_get_def
      dict_get_default_def split: option.splits)

theorem error_status_raises_witness:
  "handle_api_response
     \<lparr>resp_status_code = 200, resp_reason = ''OK'',
      resp_url = ''http://127.0.0.1:8084/creds'',
      resp_text = ''{\"status\": \"error\", \"error_message\": \"X\"}'',
      resp_json = Decoded (JDict [(''status'', JStr ''error''), (''error_message'', JStr ''X'')])\<rparr>
   = Inl (APIClientError
            \<lparr>message = JStr ''X'',
             status_code = Some 200,
             response_data =
               Some (ParsedBody
                 (JDict [(''status'', JStr ''error''), (''error_message'', JStr ''X'')]))\<rparr>)
   \<and> handle_api_response
     \<lparr>resp_status_code = 201, resp_reason = ''Created'',
      resp_url = ''http://127.0.0.1:8084/api/save-keys'',
      resp_text = ''{\"status\": \"error\"}'',
      resp_json = Decoded (JDict [(''status'', JStr ''error'')])\<rparr>
   = Inl (APIClientError
            \<lparr>message =
               JStr ''Unknown API error: 'status' is 'error' but 'error_message' is missing.'',
             status_code = Some 201,
             response_data = Some (ParsedBody (JDict [(''status'', JStr ''error'')]))\<rparr>)"
  using error_status_raises
    [of "\<lparr>resp_status_code = 200, resp_reason = ''OK'',
      resp_url = ''http://127.0.0.1:8084/creds'',
      resp_text = ''{\"status\": \"error\", \"error_message\": \"X\"}'',
      resp_json = Decoded (JDict [(''status'', JStr ''error''), (''error_message'', JStr ''X'')])\<rparr>"
        "[(''status'', JStr ''error''), (''error_message'', JStr ''X'')]"]
    error_status_raises
    [of "\<lparr>resp_status_code = 201, resp_reason = ''Created'',
      resp_url = ''http://127.0.0.1:8084/api/save-keys'',
      resp_text = ''{\"status\": \"error\"}'',
      resp_json = Decoded (JDict [(''status'', JStr ''error'')])\<rparr>"
        "[(''status'', JStr ''error'')]"]
  by simp




text \<open>
  Lines 74-80: a \<^verbatim>\<open>status\<close> that is present and neither \<^verbatim>\<open>"success"\<close>, nor \<^verbatim>\<open>"error"\<close>, nor
  null raises the client error whose message quotes the value, with the HTTP status as
  status code and the decoded body as payload.
\<close>

lemma unexpected_status_raises:
  assumes "200 \<le> resp_status_code r" and "resp_status_code r < 300"
    and "resp_json r = Decoded (JDict d)"
    and "map_of d ''status'' = Some v"
    and "v \<noteq> JStr ''success''" and "v \<noteq> JStr ''error''" and "v \<noteq> JNull"
  shows "handle_api_response r =
     Inl (APIClientError
            \<lparr>message = JStr (''API response has an unexpected 'status' field value: ''
                             @ [CHR 0x27] @ py_str v @ [CHR 0x27]),
             status_code = Some (resp_status_code r),
             response_data = Some (ParsedBody (JDict d))\<rparr>)"
  using assms
  by (simp add: handle_api_response_def raise_for_status_ok handle_ok_def dict_get_def)

lemma unexpected_status_pending:
  "handle_api_response
     \<lparr>resp_status_code = 200, resp_reason = ''OK'',
      resp_url = ''http://127.0.0.1:8084/creds'',
      resp_text = ''{\"status\": \"pending\"}'',
      resp_json = Decoded (JDict [(''status'', JStr ''pending'')])\<rparr>
   = Inl (APIClientError
            \<lparr>message = JStr (''API response has an unexpected 'status' field value: 'pending''
                             @ [CHR 0x27]),
             status_code = Some 200,
             response_data = Some (ParsedBody (JDict [(''status'', JStr ''pending'')]))\<rparr>)"
  using unexpected_status_raises
    [of "\<lparr>resp_status_code = 200, resp_reason = ''OK'',
      resp_url = ''http://127.0.0.1:8084/creds'',
      resp_text = ''{\"status\": \"pending\"}'',
      resp_json = Decoded (JDict [(''status'', JStr ''pending'')])\<rparr>"
        "[(''status'', JStr ''pending'')]" "JStr ''pending''"]
  by (simp add: py_str_def)

text \<open>
  C4. The claim is that a \<^verbatim>\<open>status\<close> that is present with any value other than
  \<^verbatim>\<open>"success"\<close> or \<^verbatim>\<open>"error"\<close>, null included, raises the client error that quotes the
  value. For a null \<^verbatim>\<open>status\<close> the code does not: \<^verbatim>\<open>data.get("status")\<close> is then \<^verbatim>\<open>None\<close>,
  the branch of line 57, written for a missing \<^verbatim>\<open>status\<close>, is taken, and the body is
  returned as a success.
\<close>

theorem null_status_returns_body:
  "handle_api_response
     \<lparr>resp_status_code = 200, resp_reason = ''OK'',
      resp_url = ''http://127.0.0.1:8084/creds'',
      resp_text = ''{\"status\": null}'',
      resp_json = Decoded (JDict [(''status'', JNull)])\<rparr>
   = Inr (JDict [(''status'', JNull)])"
  by (simp add: handle_api_response_def raise_for_status_def handle_ok_def dict_get_def
      dict_contains_def)

text \<open>
  C5, as amended. A 4xx/5xx response on whose body the decoder raises \<^verbatim>\<open>JSONDecodeError\<close>
  and whose text is not empty raises the client error whose message is
  \<^verbatim>\<open>"HTTP error: "\<close> followed by the body text, with the HTTP status as status code.
\<close>

theorem undecodable_error_body_message:
  assumes "400 \<le> resp_status_code r" and "resp_status_code r < 600"
    and "resp_json r = Raises JSONDecodeError" and "resp_text r \<noteq> []"
  shows "handle_api_response r =
     Inl (APIClientError
            \<lparr>message = JStr (''HTTP error: '' @ resp_text r),
             status_code = Some (resp_status_code r),
             response_data = Some (ResponseObject r)\<rparr>)"
proof -
  from assms(1,2) obtain e where "raise_for_status r = Some e"
    using raise_for_status_error by blast
  with assms(3,4) show ?thesis
    by (simp add: handle_api_response_def handle_http_error_def)
qed

theorem undecodable_error_body_message_witness:
  "handle_api_response
     \<lparr>resp_status_code = 502, resp_reason = ''Bad Gateway'',
      resp_url = ''http://127.0.0.1:8084/infra'',
      resp_text = ''Bad Gateway'',
      resp_json = Raises JSONDecodeError\<rparr>
   = Inl (APIClientError
            \<lparr>message = JStr ''HTTP error: Bad Gateway'',
             status_code = Some 502,
             response_data = Some (ResponseObject
     \<lparr>resp_status_code = 502, resp_reason = ''Bad Gateway'',
      resp_url = ''http://127.0.0.1:8084/infra'',
      resp_text = ''Bad Gateway'',
      resp_json = Raises JSONDecodeError\<rparr>)\<rparr>)"
  using undecodable_error_body_message
    [of "\<lparr>resp_status_code = 502, resp_reason = ''Bad Gateway'',
      resp_url = ''http://127.0.0.1:8084/infra'',
      resp_text = ''Bad Gateway'',
      resp_json = Raises JSONDecodeError\<rparr>"]
  by simp

text \<open>
  C5 as first stated fails twice. On its own example, the 500 response with the text
  \<^verbatim>\<open>Internal Server Error\<close>, the message is not that text but the prefixed one. And for
  a 500 response whose body is a hundred thousand opening brackets the decoder raises
  \<^verbatim>\<open>RecursionError\<close>, which line 108 does not catch, so that no client error is raised.
\<close>

theorem plain_text_500_message:
  "handle_api_response
     \<lparr>resp_status_code = 500, resp_reason = ''Internal Server Error'',
      resp_url = ''http://127.0.0.1:8084/infra'',
      resp_text = ''Internal Server Error'',
      resp_json = Raises JSONDecodeError\<rparr>
   = Inl (APIClientError
            \<lparr>message = JStr ''HTTP error: Internal Server Error'',
             status_code = Some 500,
             response_data = Some (ResponseObject
     \<lparr>resp_status_code = 500, resp_reason = ''Internal Server Error'',
      resp_url = ''http://127.0.0.1:8084/infra'',
      resp_text = ''Internal Server Error'',
      resp_json = Raises JSONDecodeError\<rparr>)\<rparr>)
   \<and> JStr ''HTTP error: Internal Server Error'' \<noteq> JStr ''Internal Server Error''
   \<and> handle_api_response
     \<lparr>resp_status_code = 500, resp_reason = ''Internal Server Error'',
      resp_url = ''http://127.0.0.1:8084/infra'',
      resp_text = replicate 100000 (CHR ''[''),
      resp_json = Raises RecursionError\<rparr>
   = Inl (DecoderException RecursionError)"
  by (simp add: handle_api_response_def raise_for_status_def handle_http_error_def)

lemma format_validation_error_record:
  assumes "spec_validation_record rec"
  shows "format_validation_error rec = Inr (spec_record_text rec)"
  using assms
  by (auto simp: spec_validation_record_def format_validation_error_def spec_record_text_def
      subscript_last_def dict_get_default_def dict_get_def dict_contains_def list_items_def
      split: json_value.splits option.splits)

lemma format_validation_errors_records:
  "list_all spec_validation_record recs \<Longrightarrow>
   format_validation_errors recs = Inr (map spec_record_text recs)"
  by (induction recs) (simp_all add: format_validation_error_record)

lemma is_validation_list_records:
  assumes "recs \<noteq> []" and "list_all spec_validation_record recs"
  shows "is_validation_list (JList recs)"
  using assms
  by (cases recs)
     (auto simp: is_validation_list_def spec_validation_record_def dict_contains_def
       split: json_value.splits option.splits)

text \<open>
  C6, as amended. A 4xx/5xx response whose body decodes to a mapping without
  \<^verbatim>\<open>error_message\<close> and with a \<^verbatim>\<open>detail\<close> that is a non-empty sequence of validation
  records (each a mapping with a \<^verbatim>\<open>msg\<close> and a \<^verbatim>\<open>loc\<close> that is a non-empty sequence) raises
  the client error whose message is the records rendered as
  \<^verbatim>\<open>"<last element of loc>: <msg>"\<close> and joined with \<^verbatim>\<open>"; "\<close>. The witness is the 422
  example of the specification, with the message \<^verbatim>\<open>folder_path: field required\<close>.
\<close>

theorem validation_detail_message:
  assumes "400 \<le> resp_status_code r" and "resp_status_code r < 600"
    and "resp_json r = Decoded (JDict d)"
    and "map_of d ''error_message'' = None"
    and "map_of d ''detail'' = Some (JList recs)"
    and "recs \<noteq> []" and "list_all spec_validation_record recs"
  shows "handle_api_response r =
     Inl (APIClientError
            \<lparr>message = JStr (join ''; '' (map spec_record_text recs)),
             status_code = Some (resp_status_code r),
             response_data = Some (ResponseObject r)\<rparr>)"
proof -
  from assms(1,2) obtain e where e: "raise_for_status r = Some e"
    using raise_for_status_error by blast
  have "error_body_message (JDict d) = Inr (JStr (join ''; '' (map spec_record_text recs)))"
    using assms(4,5) is_validation_list_records [OF assms(6,7)]
      format_validation_errors_records [OF assms(7)]
    by (simp add: error_body_message_def dict_get_def list_items_def)
  with e assms(3) show ?thesis
    by (simp add: handle_api_response_def handle_http_error_def)
qed

theorem validation_detail_message_witness:
  "handle_api_response
     \<lparr>resp_status_code = 422, resp_reason = ''Unprocessable Entity'',
      resp_url = ''http://127.0.0.1:8084/jenkinsfile-gen'',
      resp_text = ''{\"detail\": [{\"loc\": [\"body\", \"folder_path\"], \"msg\": \"field required\"}]}'',
      resp_json = Decoded (JDict [(''detail'', JList [JDict [(''loc'', JList [JStr ''body'', JStr ''folder_path'']), (''msg'', JStr ''field required'')]])])\<rparr>
   = Inl (APIClientError
            \<lparr>message = JStr ''folder_path: field required'',
             status_code = Some 422,
             response_data = Some (ResponseObject
     \<lparr>resp_status_code = 422, resp_reason = ''Unprocessable Entity'',
      resp_url = ''http://127.0.0.1:8084/jenkinsfile-gen'',
      resp_text = ''{\"detail\": [{\"loc\": [\"body\", \"folder_path\"], \"msg\": \"field required\"}]}'',
      resp_json = Decoded (JDict [(''detail'', JList [JDict [(''loc'', JList [JStr ''body'', JStr ''folder_path'']), (''msg'', JStr ''field required'')]])])\<rparr>)\<rparr>)"
  using validation_detail_message
    [of "\<lparr>resp_status_code = 422, resp_reason = ''Unprocessable Entity'',
      resp_url = ''http://127.0.0.1:8084/jenkinsfile-gen'',
      resp_text = ''{\"detail\": [{\"loc\": [\"body\", \"folder_path\"], \"msg\": \"field required\"}]}'',
      resp_json = Decoded (JDict [(''detail'', JList [JDict [(''loc'', JList [JStr ''body'', JStr ''folder_path'']), (''msg'', JStr ''field required'')]])])\<rparr>"
        "[(''detail'', JList [JDict [(''loc'', JList [JStr ''body'', JStr ''folder_path'']), (''msg'', JStr ''field required'')]])]"
        "[JDict [(''loc'', JList [JStr ''body'', JStr ''folder_path'']),
                 (''msg'', JStr ''field required'')]]"]
  by (simp add: spec_validation_record_def spec_record_text_def dict_contains_def dict_get_def
      list_items_def py_str_def)

text \<open>
  C6 as first stated fails for the empty sequence: the test \<^verbatim>\<open>len(message) > 0\<close> on line 98
  leaves the list as it is, so the message is the empty list and not the empty join.
\<close>

theorem empty_detail_message_is_list:
  "handle_api_response
     \<lparr>resp_status_code = 422, resp_reason = ''Unprocessable Entity'',
      resp_url = ''http://127.0.0.1:8084/jenkinsfile-gen'',
      resp_text = ''{\"detail\": []}'',
      resp_json = Decoded (JDict [(''detail'', JList [])])\<rparr>
   = Inl (APIClientError
            \<lparr>message = JList [],
             status_code = Some 422,
             response_data = Some (ResponseObject
     \<lparr>resp_status_code = 422, resp_reason = ''Unprocessable Entity'',
      resp_url = ''http://127.0.0.1:8084/jenkinsfile-gen'',
      resp_text = ''{\"detail\": []}'',
      resp_json = Decoded (JDict [(''detail'', JList [])])\<rparr>)\<rparr>)
   \<and> JList [] \<noteq> JStr (join ''; '' (map spec_record_text []))"
  by (simp add: handle_api_response_def raise_for_status_def handle_http_error_def
      error_body_message_def dict_get_def is_validation_list_def)

text \<open>
  C7. The claim is that the error raised for a 4xx/5xx response carries the decoded body
  (or an empty value) as its payload. Line 112 passes \<^verbatim>\<open>getattr(http_err, 'response', {})\<close>,
  the response object: here is what the code does for a 500 response with the body
  \<^verbatim>\<open>{"error_message": "X"}\<close>.
\<close>

theorem error_payload_is_response_object:
  "handle_api_response
     \<lparr>resp_status_code = 500, resp_reason = ''Internal Server Error'',
      resp_url = ''http://127.0.0.1:8084/infra'',
      resp_text = ''{\"error_message\": \"X\"}'',
      resp_json = Decoded (JDict [(''error_message'', JStr ''X'')])\<rparr>
   = Inl (APIClientError
            \<lparr>message = JStr ''X'',
             status_code = Some 500,
             response_data = Some (ResponseObject
     \<lparr>resp_status_code = 500, resp_reason = ''Internal Server Error'',
      resp_url = ''http://127.0.0.1:8084/infra'',
      resp_text = ''{\"error_message\": \"X\"}'',
      resp_json = Decoded (JDict [(''error_message'', JStr ''X'')])\<rparr>)\<rparr>)"
  by (simp add: handle_api_response_def raise_for_status_def handle_http_error_def
      error_body_message_def dict_get_def)

text \<open>
  C8. The claim is that no body of a 4xx/5xx response makes the normalizer raise anything
  but its own client error. A validation record with an empty \<^verbatim>\<open>loc\<close> does: \<^verbatim>\<open>[][-1]\<close> on
  line 101 raises \<^verbatim>\<open>IndexError\<close>, which no handler catches.
\<close>

theorem empty_loc_raises_index_error:
  "handle_api_response
     \<lparr>resp_status_code = 422, resp_reason = ''Unprocessable Entity'',
      resp_url = ''http://127.0.0.1:8084/jenkinsfile-gen'',
      resp_text = ''{\"detail\": [{\"loc\": [], \"msg\": \"field required\"}]}'',
      resp_json = Decoded (JDict [(''detail'', JList [JDict [(''loc'', JList []), (''msg'', JStr ''field required'')]])])\<rparr>
   = Inl IndexError"
  by (simp add: handle_api_response_def raise_for_status_def handle_http_error_def
      error_body_message_def dict_get_def is_validation_list_def dict_contains_def
      list_items_def format_validation_error_def dict_get_default_def subscript_last_def)

section \<open>Properties of the invokers and of the agent\<close>

lemma map_of_set_if_truthy:
  "map_of (set_if_truthy key arg ps) k =
     (if k = key \<and> arg \<noteq> None \<and> arg \<noteq> Some [] then arg else map_of ps k)"
  by (auto simp: set_if_truthy_def update_conv' split: option.splits)

lemma map_of_set_if_not_none:
  "map_of (set_if_not_none key arg ps) k = (if k = key \<and> arg \<noteq> None then arg else map_of ps k)"
  by (auto simp: set_if_not_none_def update_conv' split: option.splits)

text \<open>
  C9. The query parameters of \<^verbatim>\<open>call_jenkinsfile_gen\<close> have no key \<^verbatim>\<open>app_name\<close>, \<^verbatim>\<open>port\<close> or
  \<^verbatim>\<open>version\<close> when the argument is \<^verbatim>\<open>None\<close> or the empty string, and the JSON body of
  \<^verbatim>\<open>call_analyzer\<close> has no key \<^verbatim>\<open>folder_path\<close> or \<^verbatim>\<open>environment_path\<close> when the argument
  is \<^verbatim>\<open>None\<close>.
\<close>

theorem optional_arguments_omitted:
  "req_params (jenkinsfile_gen_request folder_path app_name port version)
     = Some (jenkinsfile_gen_params folder_path app_name port version)
   \<and> (app_name = None \<or> app_name = Some [] \<longrightarrow>
        ''app_name'' \<notin> fst ` set (jenkinsfile_gen_params folder_path app_name port version))
   \<and> (port = None \<or> port = Some [] \<longrightarrow>
        ''port'' \<notin> fst ` set (jenkinsfile_gen_params folder_path app_name port version))
   \<and> (version = None \<or> version = Some [] \<longrightarrow>
        ''version'' \<notin> fst ` set (jenkinsfile_gen_params folder_path app_name port version))
   \<and> req_json (analyzer_request a_folder_path environment_path)
     = Some (analyzer_payload a_folder_path environment_path)
   \<and> (a_folder_path = None \<longrightarrow>
        ''folder_path'' \<notin> fst ` set (analyzer_payload a_folder_path environment_path))
   \<and> (environment_path = None \<longrightarrow>
        ''environment_path'' \<notin> fst ` set (analyzer_payload a_folder_path environment_path))"
  by (simp add: jenkinsfile_gen_request_def analyzer_request_def jenkinsfile_gen_params_def
      analyzer_payload_def map_of_set_if_truthy map_of_set_if_not_none
      map_of_eq_None_iff [symmetric])

theorem optional_arguments_omitted_witness:
  "''app_name'' \<notin> fst ` set (jenkinsfile_gen_params ''/srv/app'' None (Some []) (Some ''v1''))
   \<and> ''port'' \<notin> fst ` set (jenkinsfile_gen_params ''/srv/app'' None (Some []) (Some ''v1''))
   \<and> ''folder_path'' \<notin> fst ` set (analyzer_payload None (Some ''/srv/env''))"
  using optional_arguments_omitted
    [of "''/srv/app''" None "Some []" "Some ''v1''" None "Some ''/srv/env''"]
  by simp

text \<open>
  C10, as amended. Seven of the fifteen invokers are registered as tools of the agent,
  each with its name, its argument schema and its description: analyzer, dockerfile-gen,
  jenkinsfile-gen, get-creds, infra, get-environments and github-webhook-setup. The
  other eight are defined and not registered.
\<close>

theorem registered_tools:
  "map function_tool (tools root_agent) =
     [\<lparr>tool_name = ''call_analyzer'',
       tool_parameters =
         [Parameter ''folder_path'' Str NoDefault,
          Parameter ''environment_path'' Str NoDefault],
       tool_description =
         [''Analyzes Python files in a specified directory to identify dependencies,'',
          ''generate a requirements file, and extract contextual information like'',
          ''app type, working directory, and entry point.'',
          '''',
          ''Args:'',
          ''    folder_path (str): The path to the folder to analyze.'',
          ''                                 Server-side logic might require this.'',
          ''    environment_path (str): Path to the Python environment'',
          ''                                      to help resolve dependencies.'',
          '''',
          ''Returns:'',
          ''    dict: API response.'',
          ''          Example success: `{\"success\": True, \"app_type\": \"streamlit\", \"environment_path\": \"/path/env\", \"work_dir\": \"/app\", \"entrypoint\": \"run.py\"}`'',
          ''          Example error: `{\"success\": False, \"error\": \"Analyzer error: folder_path is required.\"}`'',
          '''',
          ''Raises:'',
          ''    APIClientError: If the API call fails or returns an error.'']\<rparr>,
      \<lparr>tool_name = ''call_dockerfile_gen'',
       tool_parameters =
         [Parameter ''app_type'' Str NoDefault,
          Parameter ''python_version'' Str NoDefault,
          Parameter ''work_dir'' Str NoDefault,
          Parameter ''entrypoint'' Str NoDefault,
          Parameter ''folder_path'' Str NoDefault],
       tool_description =
         [''Generates a Dockerfile based on the specified application context data.'',
          '''',
          ''Args:'',
          ''    app_type (str): Type of the application (e.g., 'streamlit', 'fastapi'). Required.'',
          ''    python_version (str): Python version to use (e.g., '3.9'). Required.'',
          ''    work_dir (str): The working directory path inside the Docker container (e.g., '/app'). Required.'',
          ''    entrypoint (str): Entrypoint script for the application (e.g., 'app.py'). Required.'',
          ''    folder_path (str): The server-side folder path where the Dockerfile will be generated. Required.'',
          '''',
          ''Returns:'',
          ''    dict: API response.'',
          ''          Example success: `{\"success\": True, \"message\": \"Dockerfile generated in /path/to/folder\"}`'',
          ''          Example error: `{\"success\": False, \"error\": \"Dockerfile generation error: details\"}`'',
          '''',
          ''Raises:'',
          ''    APIClientError: If the API call fails or returns an error.'']\<rparr>,
      \<lparr>tool_name = ''call_jenkinsfile_gen'',
       tool_parameters =
         [Parameter ''folder_path'' Str NoDefault,
          Parameter ''app_name'' OptionalStr DefaultNone,
          Parameter ''port'' OptionalStr DefaultNone,
          Parameter ''version'' OptionalStr DefaultNone],
       tool_description =
         [''Generates a Jenkinsfile in the specified server-side folder path.'',
          ''Optionally, app_name, port, and version can be provided if the server supports them as query parameters.'',
          '''',
          ''Args:'',
          ''    folder_path (str): The server-side folder path where the Jenkinsfile will be generated. Required.'',
          ''    app_name (Optional[str]): Name of the application (e.g., \"Streamlit-App\").'',
          ''    port (Optional[str]): Port the application runs on (e.g., '8501').'',
          ''    version (Optional[str]): Version tag for the application (e.g., \"v1\").'',
          '''',
          ''Returns:'',
          ''    dict: API response.'',
          ''          Example success: `{\"success\": True, \"message\": \"Jenkinsfile generated in /path/to/folder\"}`'',
          ''          Example error: `{\"success\": False, \"error\": \"Jenkinsfile generation error: details\"}`'',
          '''',
          ''Raises:'',
          ''    APIClientError: If the API call fails or returns an error.'']\<rparr>,
      \<lparr>tool_name = ''call_get_creds'',
       tool_parameters =
         [],
       tool_description =
         [''Fetches AWS credentials and configurations like key pairs, regions, VPCs,'',
          ''subnets, and security groups that are configured for the server environment.'',
          '''',
          ''Returns:'',
          ''    dict: API response.'',
          ''          Example success: `{\"success\": True, \"aws_key_pairs\": [...], \"aws_region\": \"us-west-2\", ...}`'',
          ''          Example error: `{\"success\": False, \"error\": \"Error getting AWS creds: details\"}`'',
          '''',
          ''Raises:'',
          ''    APIClientError: If the API call fails or returns an error.'']\<rparr>,
      \<lparr>tool_name = ''call_infra'',
       tool_parameters =
         [Parameter ''work_dir'' Str NoDefault,
          Parameter ''instance_size'' Str NoDefault],
       tool_description =
         [''Generates Terraform infrastructure configurations and can trigger an initial setup'',
          ''for the user's requested infrastructure based on the specified working directory and instance size.'',
          '''',
          ''Args:'',
          ''    work_dir (str): The server-side working directory path for Terraform operations. Required.'',
          ''    instance_size (str): The EC2 instance size (e.g., 't2.micro', 't3.medium'). Required.'',
          '''',
          ''Returns:'',
          ''    dict: API response.'',
          ''          Example success: `{\"success\": True, \"message\": \"Infrastructure setup process initiated successfully.\"}`'',
          ''          Example error: `{\"success\": False, \"error\": \"Infra setup error: details\"}`'',
          '''',
          ''Raises:'',
          ''    APIClientError: If the API call fails or returns an error.'']\<rparr>,
      \<lparr>tool_name = ''call_get_environments'',
       tool_parameters =
         [Parameter ''folder_path'' Str NoDefault],
       tool_description =
         [''Retrieves available Python versions found in a specified server-side directory.'',
          ''This can include system Python, conda environments, or brew environments scanned by the server.'',
          '''',
          ''Args:'',
          ''    folder_path (str): The server-side folder path to scan for Python environments. Required.'',
          '''',
          ''Returns:'',
          ''    dict: API response.'',
          ''          Example success: `{\"success\": True, \"python_versions\": [\"3.8\", \"3.9.7\"]}`'',
          ''          Example error: `{\"success\": False, \"error\": \"Error getting environments: details\"}`'',
          '''',
          ''Raises:'',
          ''    APIClientError: If the API call fails or returns an error.'']\<rparr>,
      \<lparr>tool_name = ''call_github_webhook_setup'',
       tool_parameters =
         [Parameter ''folder_path'' Str NoDefault],
       tool_description =
         [''Sets up a GitHub webhook for a repository associated with the specified server-side folder path.'',
          ''This typically requires prior configuration of GitHub credentials on the server.'',
          '''',
          ''Args:'',
          ''    folder_path (str): The server-side path to the folder (Git repository)'',
          ''                       for which the GitHub webhook needs to be set up. Required.'',
          '''',
          ''Returns:'',
          ''    dict: API response.'',
          ''          Example success: `{\"success\": True, \"message\": \"Webhook setup process completed.\", \"details\": \"Webhook created with ID 12345\"}`'',
          ''          Example error: `{\"success\": False, \"error\": \"GitHub webhook setup error: details\"}`'',
          '''',
          ''Raises:'',
          ''    APIClientError: If the API call fails or returns an error.'']\<rparr>]
   \<and> filter (\<lambda>i. i \<in> set (tools root_agent)) all_invokers =
     [Call_analyzer, Call_get_creds, Call_dockerfile_gen, Call_jenkinsfile_gen, Call_infra,
      Call_get_environments, Call_github_webhook_setup]
   \<and> filter (\<lambda>i. i \<notin> set (tools root_agent)) all_invokers =
     [Call_save_keys, Call_get_keys, Call_acube_cicd_plan, Call_acube_dynamic_question,
      Call_acube_answer_validator, Call_dashboard_file_data, Call_edit_file,
      Call_get_instance_ip]
   \<and> map endpoint_path (tools root_agent) =
     [''/analyzer'', ''/dockerfile-gen'', ''/jenkinsfile-gen'', ''/creds'', ''/infra'',
      ''/get-environments'', ''/github-webhook-setup'']"
  by (simp add: root_agent_def all_invokers_def function_tool_def)

text \<open>C10 as first stated fails: the save-keys invoker, for one, is not a tool of the agent.\<close>

theorem save_keys_not_registered:
  "Call_save_keys \<notin> set (tools root_agent)"
  by (simp add: root_agent_def)

end
